theory Spec2Isabelle
  imports Main
begin

section \<open>JavaScript values seen by the tools\<close>

text \<open>
  Every tool file exports one \<^verbatim>\<open>executeFunction\<close> that destructures an arguments object,
  builds a URL, calls \<^verbatim>\<open>fetch\<close> once and returns either the parsed body or an object
  \<^verbatim>\<open>{ error: ... }\<close>. The declared parameter types are string, number, integer and
  boolean, so an argument is a primitive value. Strings are sequences of bytes (the UTF-8
  form that the URL encoder works on). A finite number is given by a decimal: \<open>JsFinite m e\<close>
  is the number \<open>m \<times> 10\<^sup>e\<close>, taken at the shortest decimal that identifies it, which is the
  one \<^verbatim>\<open>Number.prototype.toString\<close> prints (37.42 is \<open>JsFinite 3742 (-2)\<close>); NaN and the
  two infinities are values of their own.
\<close>

datatype js_value =
    JsUndefined
  | JsNull
  | JsBoolean bool
  | JsFinite int int
  | JsNaN
  | JsInfinity bool
  | JsString string

text \<open>
  An integer-valued number is the case \<open>e = 0\<close>. The argument of \<open>JsInfinity\<close> tells whether
  the infinity is the negative one.
\<close>

abbreviation JsNumber :: "int \<Rightarrow> js_value" where
  "JsNumber n \<equiv> JsFinite n 0"

text \<open>
  Values produced by \<^verbatim>\<open>response.json()\<close> and returned by the tools; \<open>JNum m e\<close> is the
  number \<open>m \<times> 10\<^sup>e\<close>.
\<close>

datatype json_value =
    JNull
  | JBool bool
  | JNum int int
  | JStr string
  | JArray "json_value list"
  | JObject "(string \<times> json_value) list"

text \<open>
  What a \<^verbatim>\<open>throw\<close> or a rejected promise carries: an instance of \<^verbatim>\<open>Error\<close> with its
  message, or any other value. For the latter only \<^verbatim>\<open>JSON.stringify\<close> of it matters, and
  \<open>None\<close> stands for a value that \<^verbatim>\<open>JSON.stringify\<close> maps to \<^verbatim>\<open>undefined\<close>.
\<close>

datatype thrown =
    ErrorInstance string
  | NonError "json_value option"

text \<open>The arguments object: a property that is missing reads as \<^verbatim>\<open>undefined\<close>.\<close>

type_synonym args = "string \<rightharpoonup> js_value"

definition arg :: "args \<Rightarrow> string \<Rightarrow> js_value" where
  "arg a n = (case a n of None \<Rightarrow> JsUndefined | Some v \<Rightarrow> v)"

text \<open>A destructuring default \<^verbatim>\<open>{ x = d }\<close> applies exactly when the property is \<^verbatim>\<open>undefined\<close>.\<close>

definition arg_default :: "args \<Rightarrow> string \<Rightarrow> js_value \<Rightarrow> js_value" where
  "arg_default a n d = (if arg a n = JsUndefined then d else arg a n)"

text \<open>\<^verbatim>\<open>process.env.GOOGLE_MAPS_PLATFORM_API_KEY\<close>: a string, or \<^verbatim>\<open>undefined\<close> when unset.\<close>

definition process_env :: "string option \<Rightarrow> js_value" where
  "process_env e = (case e of None \<Rightarrow> JsUndefined | Some s \<Rightarrow> JsString s)"

fun truthy :: "js_value \<Rightarrow> bool" where
  "truthy JsUndefined = False"
| "truthy JsNull = False"
| "truthy (JsBoolean b) = b"
| "truthy (JsFinite m e) = (m \<noteq> 0)"
| "truthy JsNaN = False"
| "truthy (JsInfinity negative) = True"
| "truthy (JsString s) = (s \<noteq> [])"

subsection \<open>Numbers and strings\<close>

definition digit_char :: "nat \<Rightarrow> char" where
  "digit_char d = ''0123456789'' ! d"

fun decimal :: "nat \<Rightarrow> string" where
  "decimal n = (if n < 10 then [digit_char n] else decimal (n div 10) @ [digit_char (n mod 10)])"

declare decimal.simps [simp del]

text \<open>
  \<^verbatim>\<open>Number::toString\<close> of ECMAScript for radix 10, on the number \<open>m \<times> 10\<^sup>e\<close>. With \<open>s\<close> the
  digits of the number without trailing zeros, \<open>k\<close> their count and \<open>n\<close> the position of
  the decimal point (the number is \<open>0.s \<times> 10\<^sup>n\<close>): for \<open>-5 \<le> n \<le> 21\<close> the digits are
  written out with zeros or a point as needed, otherwise in exponent notation.
\<close>

definition Number_toString :: "int \<Rightarrow> int \<Rightarrow> string" where
  "Number_toString m e =
     (if m = 0 then ''0''
      else
        (if m < 0 then ''-'' else []) @
        (let ds = decimal (nat \<bar>m\<bar>);
             s = rev (dropWhile (\<lambda>c. c = CHR ''0'') (rev ds));
             k = int (length s);
             n = int (length ds) + e
         in if - 5 \<le> n \<and> n \<le> 21 then
              (if k \<le> n then s @ replicate (nat (n - k)) (CHR ''0'')
               else if 0 < n then take (nat n) s @ ''.'' @ drop (nat n) s
               else ''0.'' @ replicate (nat (- n)) (CHR ''0'') @ s)
            else
              (if k = 1 then s else take 1 s @ ''.'' @ drop 1 s) @ ''e'' @
              (if n < 0 then ''-'' else ''+'') @ decimal (nat \<bar>n - 1\<bar>)))"

text \<open>The abstract operation ToString, used by \<^verbatim>\<open>URLSearchParams.append\<close> and by templates.\<close>

fun ToString :: "js_value \<Rightarrow> string" where
  "ToString JsUndefined = ''undefined''"
| "ToString JsNull = ''null''"
| "ToString (JsBoolean b) = (if b then ''true'' else ''false'')"
| "ToString (JsFinite m e) = Number_toString m e"
| "ToString JsNaN = ''NaN''"
| "ToString (JsInfinity negative) = (if negative then ''-Infinity'' else ''Infinity'')"
| "ToString (JsString s) = s"

text \<open>
  The method call \<^verbatim>\<open>v.toString()\<close>: reading a property of \<^verbatim>\<open>undefined\<close> or \<^verbatim>\<open>null\<close>
  throws a \<^verbatim>\<open>TypeError\<close> (the message is the one of Node.js).
\<close>

fun toString :: "js_value \<Rightarrow> thrown + string" where
  "toString JsUndefined =
     Inl (ErrorInstance ''Cannot read properties of undefined (reading 'toString')'')"
| "toString JsNull =
     Inl (ErrorInstance ''Cannot read properties of null (reading 'toString')'')"
| "toString v = Inr (ToString v)"

subsection \<open>The application/x-www-form-urlencoded serializer\<close>

definition form_safe :: "char \<Rightarrow> bool" where
  "form_safe c =
     (c \<in> set ''ABCDEFGHIJKLMNOPQRSTUVWXYZabcdefghijklmnopqrstuvwxyz0123456789*-._'')"

definition hex_upper :: "nat \<Rightarrow> char" where
  "hex_upper d = ''0123456789ABCDEF'' ! d"

definition percent_encode_byte :: "char \<Rightarrow> string" where
  "percent_encode_byte c =
     [CHR ''%'', hex_upper (of_char c div 16), hex_upper (of_char c mod 16)]"

definition form_encode_char :: "char \<Rightarrow> string" where
  "form_encode_char c =
     (if c = CHR '' '' then ''+''
      else if form_safe c then [c]
      else percent_encode_byte c)"

definition form_urlencode :: "string \<Rightarrow> string" where
  "form_urlencode s = concat (map form_encode_char s)"

type_synonym URLSearchParams = "(string \<times> string) list"

fun urlencoded_serialize :: "URLSearchParams \<Rightarrow> string" where
  "urlencoded_serialize [] = []"
| "urlencoded_serialize [(n, v)] = form_urlencode n @ ''='' @ form_urlencode v"
| "urlencoded_serialize ((n, v) # rest) =
     form_urlencode n @ ''='' @ form_urlencode v @ ''&'' @ urlencoded_serialize rest"

text \<open>\<^verbatim>\<open>params.append(name, value)\<close> converts the value with ToString and adds the pair at the end.\<close>

definition searchParams_append :: "URLSearchParams \<Rightarrow> string \<Rightarrow> js_value \<Rightarrow> URLSearchParams" where
  "searchParams_append ps n v = ps @ [(n, ToString v)]"

text \<open>The recurring line \<^verbatim>\<open>if (x) url.searchParams.append('x', x);\<close>.\<close>

definition append_if_truthy :: "URLSearchParams \<Rightarrow> string \<Rightarrow> js_value \<Rightarrow> URLSearchParams" where
  "append_if_truthy ps n v = (if truthy v then searchParams_append ps n v else ps)"

text \<open>
  \<^verbatim>\<open>url.toString()\<close> of a URL object made from a base without query whose
  \<^verbatim>\<open>searchParams\<close> hold \<open>ps\<close>: an empty list leaves the URL without a query.
\<close>

definition URL_toString :: "string \<Rightarrow> URLSearchParams \<Rightarrow> string" where
  "URL_toString base ps = (if ps = [] then base else base @ ''?'' @ urlencoded_serialize ps)"

section \<open>The fourteen tools\<close>

text \<open>The tools, under the names of their descriptors.\<close>

datatype tool =
    distance_matrix
  | autocomplete_place
  | query_autocomplete
  | get_place_details
  | nearby_search
  | text_search
  | find_place_from_text
  | get_time_zone
  | nearest_roads
  | snap_to_roads
  | forecast_days
  | forecast_hours
  | get_hourly_weather
  | current_conditions

text \<open>The string given to \<^verbatim>\<open>new URL\<close>.\<close>

fun endpoint :: "tool \<Rightarrow> string" where
  "endpoint distance_matrix = ''https://maps.googleapis.com/maps/api/distancematrix/json''"
| "endpoint autocomplete_place = ''https://www.googleapis.com'' @ ''/maps/api/place/autocomplete/json''"
| "endpoint query_autocomplete = ''https://www.googleapis.com'' @ ''/maps/api/place/queryautocomplete/json''"
| "endpoint get_place_details = ''https://www.googleapis.com'' @ ''/maps/api/place/details/json''"
| "endpoint nearby_search = ''https://maps.googleapis.com/maps/api/place/nearbysearch/json''"
| "endpoint text_search = ''https://maps.googleapis.com/maps/api/place/textsearch/json''"
| "endpoint find_place_from_text = ''https://www.googleapis.com'' @ ''/maps/api/place/findplacefromtext/json''"
| "endpoint get_time_zone = ''https://www.googleapis.com'' @ ''/maps/api/timezone/json''"
| "endpoint nearest_roads = ''https://roads.googleapis.com/v1/nearestRoads''"
| "endpoint snap_to_roads = ''https://roads.googleapis.com/v1/snaptoroads''"
| "endpoint forecast_days = ''https://weather.googleapis.com'' @ ''/v1/forecast/days:lookup''"
| "endpoint forecast_hours = ''https://weather.googleapis.com'' @ ''/v1/forecast/hours:lookup''"
| "endpoint get_hourly_weather = ''https://weather.googleapis.com'' @ ''/v1/history/hours:lookup''"
| "endpoint current_conditions = ''https://weather.googleapis.com'' @ ''/v1/currentConditions:lookup''"

text \<open>
  The query parameters each \<^verbatim>\<open>executeFunction\<close> has appended when it reaches \<^verbatim>\<open>fetch\<close>,
  line by line as in the source; \<open>Inl\<close> is an exception thrown on the way.
\<close>

fun searchParams :: "tool \<Rightarrow> js_value \<Rightarrow> args \<Rightarrow> thrown + URLSearchParams" where
  "searchParams distance_matrix apiKey a =
     (let origins = arg a ''origins'';
          destinations = arg a ''destinations'';
          mode = arg_default a ''mode'' (JsString ''driving'');
          units = arg_default a ''units'' (JsString ''metric'');
          language = arg_default a ''language'' (JsString ''en'');
          departure_time = arg a ''departure_time'';
          avoid = arg a ''avoid'';
          traffic_model = arg_default a ''traffic_model'' (JsString ''best_guess'');
          ps = [];
          ps = searchParams_append ps ''origins'' origins;
          ps = searchParams_append ps ''destinations'' destinations;
          ps = searchParams_append ps ''mode'' mode;
          ps = searchParams_append ps ''units'' units;
          ps = searchParams_append ps ''language'' language;
          ps = append_if_truthy ps ''departure_time'' departure_time;
          ps = append_if_truthy ps ''avoid'' avoid;
          ps = append_if_truthy ps ''traffic_model'' traffic_model;
          ps = searchParams_append ps ''key'' apiKey
      in Inr ps)"
| "searchParams autocomplete_place apiKey a =
     (let input = arg a ''input'';
          sessiontoken = arg a ''sessiontoken'';
          components = arg a ''components'';
          strictbounds = arg a ''strictbounds'';
          offset = arg a ''offset'';
          origin = arg a ''origin'';
          location = arg a ''location'';
          radius = arg a ''radius'';
          types = arg a ''types'';
          language = arg_default a ''language'' (JsString ''en'');
          region = arg_default a ''region'' (JsString ''en'');
          ps = [];
          ps = searchParams_append ps ''input'' input;
          ps = append_if_truthy ps ''sessiontoken'' sessiontoken;
          ps = append_if_truthy ps ''components'' components;
          ps = append_if_truthy ps ''strictbounds'' strictbounds;
          ps = append_if_truthy ps ''offset'' offset;
          ps = append_if_truthy ps ''origin'' origin;
          ps = append_if_truthy ps ''location'' location;
          ps = append_if_truthy ps ''radius'' radius;
          ps = append_if_truthy ps ''types'' types;
          ps = append_if_truthy ps ''language'' language;
          ps = append_if_truthy ps ''region'' region;
          ps = searchParams_append ps ''key'' apiKey
      in Inr ps)"
| "searchParams query_autocomplete apiKey a =
     (let input = arg a ''input'';
          offset = arg a ''offset'';
          location = arg a ''location'';
          radius = arg a ''radius'';
          language = arg_default a ''language'' (JsString ''en'');
          ps = [];
          ps = searchParams_append ps ''input'' input;
          ps = append_if_truthy ps ''offset'' offset;
          ps = append_if_truthy ps ''location'' location;
          ps = append_if_truthy ps ''radius'' radius;
          ps = searchParams_append ps ''language'' language;
          ps = searchParams_append ps ''key'' apiKey
      in Inr ps)"
| "searchParams get_place_details apiKey a =
     (let place_id = arg a ''place_id'';
          fields = arg a ''fields'';
          sessiontoken = arg a ''sessiontoken'';
          language = arg_default a ''language'' (JsString ''en'');
          region = arg_default a ''region'' (JsString ''en'');
          ps = [];
          ps = searchParams_append ps ''place_id'' place_id;
          ps = append_if_truthy ps ''fields'' fields;
          ps = append_if_truthy ps ''sessiontoken'' sessiontoken;
          ps = searchParams_append ps ''language'' language;
          ps = searchParams_append ps ''region'' region;
          ps = searchParams_append ps ''key'' apiKey
      in Inr ps)"
| "searchParams nearby_search apiKey a =
     (let location = arg a ''location'';
          keyword = arg a ''keyword'';
          name = arg a ''name'';
          radius = arg a ''radius'';
          type = arg a ''type'';
          language = arg_default a ''language'' (JsString ''en'');
          ps = [];
          ps = searchParams_append ps ''location'' location;
          ps = append_if_truthy ps ''keyword'' keyword;
          ps = append_if_truthy ps ''name'' name;
          ps = append_if_truthy ps ''radius'' radius;
          ps = append_if_truthy ps ''type'' type;
          ps = searchParams_append ps ''language'' language;
          ps = searchParams_append ps ''key'' apiKey
      in Inr ps)"
| "searchParams text_search apiKey a =
     (let query = arg a ''query'';
          location = arg a ''location'';
          maxprice = arg a ''maxprice'';
          minprice = arg a ''minprice'';
          opennow = arg a ''opennow'';
          pagetoken = arg a ''pagetoken'';
          radius = arg a ''radius'';
          type = arg a ''type'';
          language = arg_default a ''language'' (JsString ''en'');
          region = arg_default a ''region'' (JsString ''en'');
          params = [];
          params = searchParams_append params ''query'' query;
          params = append_if_truthy params ''location'' location;
          params = append_if_truthy params ''maxprice'' maxprice;
          params = append_if_truthy params ''minprice'' minprice;
          params = append_if_truthy params ''opennow'' opennow;
          params = append_if_truthy params ''pagetoken'' pagetoken;
          params = append_if_truthy params ''radius'' radius;
          params = append_if_truthy params ''type'' type;
          params = append_if_truthy params ''language'' language;
          params = append_if_truthy params ''region'' region;
          params = searchParams_append params ''key'' apiKey
      in Inr params)"
| "searchParams find_place_from_text apiKey a =
     (let input = arg a ''input'';
          inputtype = arg a ''inputtype'';
          fields = arg a ''fields'';
          locationbias = arg a ''locationbias'';
          language = arg_default a ''language'' (JsString ''en'');
          ps = [];
          ps = searchParams_append ps ''input'' input;
          ps = searchParams_append ps ''inputtype'' inputtype;
          ps = append_if_truthy ps ''fields'' fields;
          ps = append_if_truthy ps ''locationbias'' locationbias;
          ps = searchParams_append ps ''language'' language;
          ps = searchParams_append ps ''key'' apiKey
      in Inr ps)"
| "searchParams get_time_zone apiKey a =
     (let location = arg a ''location'';
          timestamp = arg a ''timestamp'';
          ps = [];
          ps = searchParams_append ps ''location'' location
      in case toString timestamp of Inl e \<Rightarrow> Inl e | Inr s \<Rightarrow>
        (let ps = searchParams_append ps ''timestamp'' (JsString s);
             ps = searchParams_append ps ''key'' apiKey
         in Inr ps))"
| "searchParams nearest_roads apiKey a =
     (let points = arg a ''points'';
          ps = [];
          ps = searchParams_append ps ''points'' points;
          ps = searchParams_append ps ''key'' apiKey
      in Inr ps)"
| "searchParams snap_to_roads apiKey a =
     (let path = arg a ''path'';
          interpolate = arg_default a ''interpolate'' (JsBoolean False);
          ps = [];
          ps = searchParams_append ps ''path'' path
      in case toString interpolate of Inl e \<Rightarrow> Inl e | Inr s \<Rightarrow>
        (let ps = searchParams_append ps ''interpolate'' (JsString s);
             ps = searchParams_append ps ''key'' apiKey
         in Inr ps))"
| "searchParams forecast_days apiKey a =
     (let latitude = arg a ''latitude'';
          longitude = arg a ''longitude'';
          pageSize = arg_default a ''pageSize'' (JsNumber 5);
          pageToken = arg a ''pageToken'';
          days = arg_default a ''days'' (JsNumber 10);
          languageCode = arg_default a ''languageCode'' (JsString ''en'');
          ps = [];
          ps = searchParams_append ps ''location.latitude'' latitude;
          ps = searchParams_append ps ''location.longitude'' longitude
      in case toString pageSize of Inl e \<Rightarrow> Inl e | Inr s \<Rightarrow>
        (let ps = searchParams_append ps ''pageSize'' (JsString s);
             ps = append_if_truthy ps ''pageToken'' pageToken
         in case toString days of Inl e \<Rightarrow> Inl e | Inr s \<Rightarrow>
           (let ps = searchParams_append ps ''days'' (JsString s);
                ps = searchParams_append ps ''languageCode'' languageCode
            in Inr ps)))"
| "searchParams forecast_hours apiKey a =
     (let latitude = arg a ''latitude'';
          longitude = arg a ''longitude'';
          unitsSystem = arg_default a ''unitsSystem'' (JsString ''METRIC'');
          pageSize = arg_default a ''pageSize'' (JsNumber 24);
          pageToken = arg a ''pageToken'';
          days = arg_default a ''days'' (JsNumber 240);
          languageCode = arg_default a ''languageCode'' (JsString ''en'');
          ps = [];
          ps = searchParams_append ps ''location.latitude'' latitude;
          ps = searchParams_append ps ''location.longitude'' longitude;
          ps = searchParams_append ps ''unitsSystem'' unitsSystem
      in case toString pageSize of Inl e \<Rightarrow> Inl e | Inr s \<Rightarrow>
        (let ps = searchParams_append ps ''pageSize'' (JsString s);
             ps = append_if_truthy ps ''pageToken'' pageToken
         in case toString days of Inl e \<Rightarrow> Inl e | Inr s \<Rightarrow>
           (let ps = searchParams_append ps ''days'' (JsString s);
                ps = searchParams_append ps ''languageCode'' languageCode;
                ps = append_if_truthy ps ''key'' apiKey
            in Inr ps)))"
| "searchParams get_hourly_weather apiKey a =
     (let latitude = arg a ''latitude'';
          longitude = arg a ''longitude'';
          unitsSystem = arg_default a ''unitsSystem'' (JsString ''METRIC'');
          pageSize = arg_default a ''pageSize'' (JsNumber 24);
          pageToken = arg a ''pageToken'';
          hours = arg_default a ''hours'' (JsNumber 24);
          languageCode = arg_default a ''languageCode'' (JsString ''en'');
          ps = [];
          ps = searchParams_append ps ''location.latitude'' latitude;
          ps = searchParams_append ps ''location.longitude'' longitude;
          ps = searchParams_append ps ''unitsSystem'' unitsSystem
      in case toString pageSize of Inl e \<Rightarrow> Inl e | Inr s \<Rightarrow>
        (let ps = searchParams_append ps ''pageSize'' (JsString s);
             ps = append_if_truthy ps ''pageToken'' pageToken
         in case toString hours of Inl e \<Rightarrow> Inl e | Inr s \<Rightarrow>
           (let ps = searchParams_append ps ''hours'' (JsString s);
                ps = searchParams_append ps ''languageCode'' languageCode
            in Inr ps)))"
| "searchParams current_conditions apiKey a =
     (let latitude = arg a ''latitude'';
          longitude = arg a ''longitude'';
          unitsSystem = arg_default a ''unitsSystem'' (JsString ''METRIC'');
          languageCode = arg_default a ''languageCode'' (JsString ''en'');
          ps = [];
          ps = searchParams_append ps ''location.latitude'' latitude;
          ps = searchParams_append ps ''location.longitude'' longitude;
          ps = searchParams_append ps ''unitsSystem'' unitsSystem;
          ps = searchParams_append ps ''languageCode'' languageCode
      in Inr ps)"

subsection \<open>The call of fetch\<close>

record request =
  url :: string
  http_method :: string
  headers :: "(string \<times> string) list"

text \<open>
  The first argument of \<^verbatim>\<open>fetch\<close>. Most tools pass \<^verbatim>\<open>url.toString()\<close>; three weather
  tools pass \<^verbatim>\<open>`${url.toString()}&key=${apiKey}`\<close>; text_search keeps its parameters apart
  from the URL object and passes \<^verbatim>\<open>`${url}?${params.toString()}`\<close>.
\<close>

fun fetch_url :: "tool \<Rightarrow> js_value \<Rightarrow> URLSearchParams \<Rightarrow> string" where
  "fetch_url forecast_days apiKey ps =
     URL_toString (endpoint forecast_days) ps @ ''&key='' @ ToString apiKey"
| "fetch_url get_hourly_weather apiKey ps =
     URL_toString (endpoint get_hourly_weather) ps @ ''&key='' @ ToString apiKey"
| "fetch_url current_conditions apiKey ps =
     URL_toString (endpoint current_conditions) ps @ ''&key='' @ ToString apiKey"
| "fetch_url text_search apiKey params =
     URL_toString (endpoint text_search) [] @ ''?'' @ urlencoded_serialize params"
| "fetch_url t apiKey ps = URL_toString (endpoint t) ps"

fun fetch_headers :: "tool \<Rightarrow> (string \<times> string) list" where
  "fetch_headers forecast_days = [(''Content-Type'', ''application/json'')]"
| "fetch_headers forecast_hours = [(''Content-Type'', ''application/json'')]"
| "fetch_headers get_hourly_weather = [(''Content-Type'', ''application/json'')]"
| "fetch_headers current_conditions = [(''Content-Type'', ''application/json'')]"
| "fetch_headers t = [(''Accept'', ''application/json'')]"

text \<open>Everything from the start of the \<^verbatim>\<open>try\<close> block to the arguments of \<^verbatim>\<open>fetch\<close>.\<close>

definition fetch_request :: "tool \<Rightarrow> string option \<Rightarrow> args \<Rightarrow> thrown + request" where
  "fetch_request t env a =
     (let apiKey = process_env env
      in case searchParams t apiKey a of
           Inl e \<Rightarrow> Inl e
         | Inr ps \<Rightarrow>
             Inr \<lparr>url = fetch_url t apiKey ps, http_method = ''GET'',
                  headers = fetch_headers t\<rparr>)"

subsection \<open>The response and JSON.stringify\<close>

text \<open>
  Of the response the tools read \<^verbatim>\<open>response.ok\<close> and await \<^verbatim>\<open>response.json()\<close>, which
  resolves with the parsed body or rejects when the body is not JSON.
\<close>

record response =
  status :: nat
  json :: "thrown + json_value"

definition ok :: "response \<Rightarrow> bool" where
  "ok r = (200 \<le> status r \<and> status r \<le> 299)"

definition hex_lower :: "nat \<Rightarrow> char" where
  "hex_lower d = ''0123456789abcdef'' ! d"

definition JSON_quote_char :: "char \<Rightarrow> string" where
  "JSON_quote_char c =
     (if c = CHR 0x08 then [CHR 0x5C, CHR ''b'']
      else if c = CHR 0x09 then [CHR 0x5C, CHR ''t'']
      else if c = CHR 0x0A then [CHR 0x5C, CHR ''n'']
      else if c = CHR 0x0C then [CHR 0x5C, CHR ''f'']
      else if c = CHR 0x0D then [CHR 0x5C, CHR ''r'']
      else if c = CHR 0x22 then [CHR 0x5C, CHR 0x22]
      else if c = CHR 0x5C then [CHR 0x5C, CHR 0x5C]
      else if (of_char c :: nat) < 32 then
        [CHR 0x5C, CHR ''u'', CHR ''0'', CHR ''0'',
         hex_lower (of_char c div 16), hex_lower (of_char c mod 16)]
      else [c])"

definition JSON_quote :: "string \<Rightarrow> string" where
  "JSON_quote s = [CHR 0x22] @ concat (map JSON_quote_char s) @ [CHR 0x22]"

fun JSON_stringify :: "json_value \<Rightarrow> string"
  and stringify_elements :: "json_value list \<Rightarrow> string"
  and stringify_members :: "(string \<times> json_value) list \<Rightarrow> string" where
  "JSON_stringify JNull = ''null''"
| "JSON_stringify (JBool b) = (if b then ''true'' else ''false'')"
| "JSON_stringify (JNum m e) = Number_toString m e"
| "JSON_stringify (JStr s) = JSON_quote s"
| "JSON_stringify (JArray xs) = ''['' @ stringify_elements xs @ '']''"
| "JSON_stringify (JObject kvs) = ''{'' @ stringify_members kvs @ ''}''"
| "stringify_elements [] = []"
| "stringify_elements [x] = JSON_stringify x"
| "stringify_elements (x # y # xs) = JSON_stringify x @ '','' @ stringify_elements (y # xs)"
| "stringify_members [] = []"
| "stringify_members [(k, v)] = JSON_quote k @ '':'' @ JSON_stringify v"
| "stringify_members ((k, v) # m # kvs) =
     JSON_quote k @ '':'' @ JSON_stringify v @ '','' @ stringify_members (m # kvs)"

subsection \<open>The executor\<close>

text \<open>The fixed text before \<^verbatim>\<open>${...}\<close> in each tool's error template.\<close>

fun error_prefix :: "tool \<Rightarrow> string" where
  "error_prefix distance_matrix = ''An error occurred while fetching the distance matrix: ''"
| "error_prefix autocomplete_place = ''An error occurred while performing autocomplete search: ''"
| "error_prefix query_autocomplete = ''An error occurred while performing query autocomplete: ''"
| "error_prefix get_place_details = ''An error occurred while fetching place details: ''"
| "error_prefix nearby_search = ''An error occurred while performing nearby search: ''"
| "error_prefix text_search = ''An error occurred while performing the text search: ''"
| "error_prefix find_place_from_text = ''An error occurred while finding place from text: ''"
| "error_prefix get_time_zone = ''An error occurred while fetching time zone information: ''"
| "error_prefix nearest_roads = ''An error occurred while finding nearest roads: ''"
| "error_prefix snap_to_roads = ''An error occurred while snapping to roads: ''"
| "error_prefix forecast_days = ''An error occurred while fetching the weather forecast: ''"
| "error_prefix forecast_hours = ''An error occurred while fetching the hourly weather forecast: ''"
| "error_prefix get_hourly_weather = ''An error occurred while retrieving weather data: ''"
| "error_prefix current_conditions = ''An error occurred while fetching current weather conditions: ''"

text \<open>\<^verbatim>\<open>error instanceof Error ? error.message : JSON.stringify(error)\<close>, inside a template.\<close>

definition error_text :: "thrown \<Rightarrow> string" where
  "error_text error =
     (case error of
        ErrorInstance message \<Rightarrow> message
      | NonError v \<Rightarrow> (case v of None \<Rightarrow> ''undefined'' | Some j \<Rightarrow> JSON_stringify j))"

text \<open>
  The body of the \<^verbatim>\<open>try\<close> block, with the transport as a parameter: \<open>fetch\<close> maps the
  request to a rejection or to a response.
\<close>

definition try_block ::
  "tool \<Rightarrow> (request \<Rightarrow> thrown + response) \<Rightarrow> string option \<Rightarrow> args \<Rightarrow> thrown + json_value" where
  "try_block t fetch env a =
     (case fetch_request t env a of
        Inl e \<Rightarrow> Inl e
      | Inr req \<Rightarrow>
          (case fetch req of
             Inl e \<Rightarrow> Inl e
           | Inr response \<Rightarrow>
               if \<not> ok response then
                 (case json response of
                    Inl e \<Rightarrow> Inl e
                  | Inr errorData \<Rightarrow> Inl (ErrorInstance (JSON_stringify errorData)))
               else
                 (case json response of
                    Inl e \<Rightarrow> Inl e
                  | Inr data \<Rightarrow> Inr data)))"

text \<open>
  The whole function: \<open>Inr\<close> is the value the returned promise resolves with, \<open>Inl\<close> would
  be an exception that leaves the function. The write to \<^verbatim>\<open>console.error\<close> in the handler
  does not change the result and is left out.
\<close>

definition executeFunction ::
  "tool \<Rightarrow> (request \<Rightarrow> thrown + response) \<Rightarrow> string option \<Rightarrow> args \<Rightarrow> thrown + json_value" where
  "executeFunction t fetch env a =
     (case try_block t fetch env a of
        Inr data \<Rightarrow> Inr data
      | Inl error \<Rightarrow> Inr (JObject [(''error'', JStr (error_prefix t @ error_text error))]))"

section \<open>Reference notions taken from the specification\<close>

text \<open>
  The specification's test for a failed call, in its words: the result is an object with an
  \<^verbatim>\<open>error\<close> key that holds a string.
\<close>

definition spec_is_failure :: "json_value \<Rightarrow> bool" where
  "spec_is_failure r =
     (case r of
        JObject kvs \<Rightarrow> (case map_of kvs ''error'' of Some (JStr s) \<Rightarrow> True | _ \<Rightarrow> False)
      | _ \<Rightarrow> False)"





text \<open>The entries of a parameter list that carry a given name.\<close>

definition parameters_named :: "string \<Rightarrow> URLSearchParams \<Rightarrow> URLSearchParams" where
  "parameters_named p ps = filter (\<lambda>(n, v). n = p) ps"

text \<open>
  Reading a URL back, to state what its query string holds: the query is the text after the
  first \<^verbatim>\<open>?\<close> up to a \<^verbatim>\<open>#\<close>; its parameters are the non-empty pieces between \<^verbatim>\<open>&\<close>, each
  split at its first \<^verbatim>\<open>=\<close> into name and value, both left in their encoded spelling.
\<close>

fun split_on :: "char \<Rightarrow> string \<Rightarrow> string list" where
  "split_on d [] = [[]]"
| "split_on d (c # cs) =
     (if c = d then [] # split_on d cs
      else (case split_on d cs of [] \<Rightarrow> [[c]] | x # xs \<Rightarrow> (c # x) # xs))"








section \<open>Evaluation lemmas\<close>

lemma decimal_small: "n < 10 \<Longrightarrow> decimal n = [digit_char n]"
  by (simp add: decimal.simps)

lemma decimal_large: "\<not> n < 10 \<Longrightarrow> decimal n = decimal (n div 10) @ [digit_char (n mod 10)]"
  by (subst decimal.simps) simp

lemma strip_zeros_restore:
  "rev (dropWhile (\<lambda>x. x = c) (rev ds)) @
     replicate (length ds - length (dropWhile (\<lambda>x. x = c) (rev ds))) c = ds"
proof -
  let ?P = "\<lambda>x. x = c"
  let ?r = "rev ds"
  have same: "replicate (length (takeWhile ?P ?r)) c = takeWhile ?P ?r"
    by (rule replicate_length_same) (auto dest: set_takeWhileD)
  have "length (takeWhile ?P ?r) + length (dropWhile ?P ?r) = length ?r"
    by (metis length_append takeWhile_dropWhile_id)
  then have len: "length ds - length (dropWhile ?P ?r) = length (takeWhile ?P ?r)"
    by simp
  have tw: "rev (takeWhile ?P ?r) = takeWhile ?P ?r"
    by (metis same rev_replicate)
  have "rev (dropWhile ?P ?r) @ takeWhile ?P ?r = rev (takeWhile ?P ?r @ dropWhile ?P ?r)"
    by (simp only: rev_append tw)
  also have "\<dots> = ds"
    by (simp only: takeWhile_dropWhile_id rev_rev_ident)
  finally have "rev (dropWhile ?P ?r) @ takeWhile ?P ?r = ds" .
  then show ?thesis
    by (simp only: len same)
qed

text \<open>An integer of at most 21 digits is printed as its digits.\<close>

lemma Number_toString_integer:
  assumes "0 < n" and "length (decimal (nat n)) \<le> 21"
  shows "Number_toString n 0 = decimal (nat n)"
proof -
  let ?ds = "decimal (nat n)"
  let ?t = "dropWhile (\<lambda>c. c = CHR ''0'') (rev ?ds)"
  have le: "length ?t \<le> length ?ds"
    using length_dropWhile_le [of "\<lambda>c. c = CHR ''0''" "rev ?ds"] by simp
  then have d: "nat (int (length ?ds) - int (length ?t)) = length ?ds - length ?t"
    by simp
  from assms le show ?thesis
    by (simp add: Number_toString_def Let_def d strip_zeros_restore)
qed

lemma replicate_numeral: "replicate (numeral v) x = x # replicate (numeral v - 1) x"
  by (simp add: numeral_eq_Suc)

text \<open>The printer on fractions, on large and small numbers and on zero.\<close>

lemma Number_toString_examples:
  "Number_toString 1000000000000000000000 0 = ''1e+21''"
  "Number_toString 15 20 = ''1.5e+21''"
  "Number_toString 374219983 (- 7) = ''37.4219983''"
  "Number_toString (- 1220840) (- 4) = ''-122.084''"
  "Number_toString 1 (- 6) = ''0.000001''"
  "Number_toString 1 (- 7) = ''1e-7''"
  "Number_toString 0 0 = ''0''"
  by (simp_all add: Number_toString_def Let_def decimal_small decimal_large digit_char_def
        replicate_numeral)

lemmas eval_defs =
  fetch_request_def process_env_def arg_def arg_default_def searchParams_append_def
  append_if_truthy_def Number_toString_integer URL_toString_def form_urlencode_def
  form_encode_char_def form_safe_def decimal_small decimal_large digit_char_def
  percent_encode_byte_def hex_upper_def Let_def

lemma nearest_roads_example:
  "fetch_request nearest_roads (Some ''KEY'') [''points'' \<mapsto> JsString ''60.1,24.9''] =
     Inr \<lparr>url = ''https://roads.googleapis.com/v1/nearestRoads?points=60.1%2C24.9&key=KEY'',
          http_method = ''GET'', headers = [(''Accept'', ''application/json'')]\<rparr>"
  by (simp add: eval_defs)

lemma forecast_hours_example:
  "fetch_request forecast_hours None [''latitude'' \<mapsto> JsNumber 1, ''longitude'' \<mapsto> JsNumber 2] =
     Inr \<lparr>url = ''https://weather.googleapis.com/v1/forecast/hours:lookup?location.latitude=1&location.longitude=2&unitsSystem=METRIC&pageSize=24&days=240&languageCode=en'',
          http_method = ''GET'', headers = [(''Content-Type'', ''application/json'')]\<rparr>"
  by (simp add: eval_defs)

lemma distance_matrix_example:
  "fetch_request distance_matrix (Some ''KEY'')
       [''origins'' \<mapsto> JsString ''Oslo'', ''destinations'' \<mapsto> JsString ''Bergen''] =
     Inr \<lparr>url = ''https://maps.googleapis.com/maps/api/distancematrix/json?origins=Oslo&destinations=Bergen&mode=driving&units=metric&language=en&traffic_model=best_guess&key=KEY'',
          http_method = ''GET'', headers = [(''Accept'', ''application/json'')]\<rparr>"
  by (simp add: eval_defs)


lemma text_search_example:
  "fetch_request text_search (Some ''KEY'')
      ([''query'' \<mapsto> JsString ''pizza'', ''radius'' \<mapsto> JsNumber 500](''language'' \<mapsto> JsString [])) =
     Inr \<lparr>url = ''https://maps.googleapis.com/maps/api/place/textsearch/json?query=pizza&radius=500&region=en&key=KEY'',
          http_method = ''GET'', headers = [(''Accept'', ''application/json'')]\<rparr>"
  by (simp add: eval_defs)


lemma time_zone_without_timestamp:
  "fetch_request get_time_zone (Some ''KEY'') [''location'' \<mapsto> JsString ''60.1,24.9''] =
     Inl (ErrorInstance ''Cannot read properties of undefined (reading 'toString')'')"
  by (simp add: eval_defs)

lemma invalid_request_body:
  "JSON_stringify (JObject [(''error_message'', JStr ''invalid request'')]) =
     ''{\"error_message\":\"invalid request\"}''"
  by (simp add: JSON_quote_def JSON_quote_char_def)

section \<open>Facts about the encoder and the parameter list\<close>

lemma form_safe_not_space: "form_safe c \<Longrightarrow> c \<noteq> CHR '' ''"
  by (auto simp add: form_safe_def)

lemma form_urlencode_Nil: "form_urlencode [] = []"
  by (simp add: form_urlencode_def)

lemma form_urlencode_Cons: "form_urlencode (c # cs) = form_encode_char c @ form_urlencode cs"
  by (simp add: form_urlencode_def)

lemma form_urlencode_safe: "\<forall>c\<in>set k. form_safe c \<Longrightarrow> form_urlencode k = k"
  by (induction k)
     (auto simp add: form_urlencode_Nil form_urlencode_Cons form_encode_char_def
        form_safe_not_space)




lemma urlencoded_serialize_snoc:
  "ps \<noteq> [] \<Longrightarrow> urlencoded_serialize (ps @ [(n, v)]) =
     urlencoded_serialize ps @ ''&'' @ form_urlencode n @ ''='' @ form_urlencode v"
  by (induction ps rule: urlencoded_serialize.induct) auto

lemma form_urlencode_key: "form_urlencode ''key'' = ''key''"
  by (simp add: form_urlencode_def form_encode_char_def form_safe_def)

lemma named_Nil: "parameters_named p [] = []"
  by (simp add: parameters_named_def)

lemma named_append:
  "parameters_named p (searchParams_append ps n v) =
     (if n = p then parameters_named p ps @ [(n, ToString v)] else parameters_named p ps)"
  by (simp add: parameters_named_def searchParams_append_def)

lemma named_append_if:
  "parameters_named p (append_if_truthy ps n v) =
     (if n = p \<and> truthy v then parameters_named p ps @ [(n, ToString v)]
      else parameters_named p ps)"
  by (simp add: append_if_truthy_def named_append)

lemma append_not_Nil: "searchParams_append ps n v \<noteq> []"
  by (simp add: searchParams_append_def)

lemma append_if_not_Nil: "ps \<noteq> [] \<Longrightarrow> append_if_truthy ps n v \<noteq> []"
  by (simp add: append_if_truthy_def append_not_Nil)

lemma last_searchParams_append: "last (searchParams_append ps n v) = (n, ToString v)"
  by (simp add: searchParams_append_def)

lemma butlast_searchParams_append: "butlast (searchParams_append ps n v) = ps"
  by (simp add: searchParams_append_def)

lemma append_if_true: "truthy v \<Longrightarrow> append_if_truthy ps n v = searchParams_append ps n v"
  by (simp add: append_if_truthy_def)

lemma append_if_false: "\<not> truthy v \<Longrightarrow> append_if_truthy ps n v = ps"
  by (simp add: append_if_truthy_def)

lemmas shape_simps =
  named_Nil named_append named_append_if append_not_Nil append_if_not_Nil
  last_searchParams_append butlast_searchParams_append Let_def

text \<open>
  Where the key goes through \<^verbatim>\<open>append\<close> it is the last entry of the list and the only
  one named \<^verbatim>\<open>key\<close>; elsewhere the list has no such entry.
\<close>

lemma keyed_shape:
  assumes "t \<notin> {forecast_days, get_hourly_weather, current_conditions}"
    and "t = forecast_hours \<longrightarrow> truthy apiKey"
    and "searchParams t apiKey a = Inr ps"
  shows "ps \<noteq> [] \<and> butlast ps \<noteq> [] \<and> parameters_named ''key'' (butlast ps) = [] \<and>
         last ps = (''key'', ToString apiKey)"
  using assms
  by (cases t) (auto simp add: shape_simps append_if_true split: sum.splits)

lemma unkeyed_shape:
  assumes "t \<in> {forecast_days, get_hourly_weather, current_conditions} \<or>
           (t = forecast_hours \<and> \<not> truthy apiKey)"
    and "searchParams t apiKey a = Inr ps"
  shows "ps \<noteq> [] \<and> parameters_named ''key'' ps = []"
  using assms
  by (cases t) (auto simp add: shape_simps append_if_false split: sum.splits)

text \<open>The URL given to \<^verbatim>\<open>fetch\<close>: the endpoint, the serialized parameters, the key.\<close>

lemma searchParams_key_independent:
  "isl (searchParams t k1 a) = isl (searchParams t k2 a)"
  by (cases t) (auto simp add: Let_def split: sum.splits)

lemma fetch_request_Inr:
  "fetch_request t env a = Inr req \<Longrightarrow>
   \<exists>ps. searchParams t (process_env env) a = Inr ps \<and>
        req = \<lparr>url = fetch_url t (process_env env) ps, http_method = ''GET'',
               headers = fetch_headers t\<rparr>"
  by (cases "searchParams t (process_env env) a")
     (auto simp add: fetch_request_def Let_def simp del: searchParams.simps)

lemma URL_toString_keyed:
  assumes "ps \<noteq> []" "butlast ps \<noteq> []" "last ps = (''key'', v)"
  shows "URL_toString e ps = e @ ''?'' @ urlencoded_serialize (butlast ps) @ ''&key='' @ form_urlencode v"
proof -
  have "ps = butlast ps @ [(''key'', v)]"
    using assms(1,3) by (metis append_butlast_last_id)
  then have "urlencoded_serialize ps =
      urlencoded_serialize (butlast ps) @ ''&'' @ form_urlencode ''key'' @ ''='' @ form_urlencode v"
    using urlencoded_serialize_snoc [OF assms(2), of "''key''" v] by simp
  with assms(1) show ?thesis
    by (simp add: URL_toString_def form_urlencode_key)
qed

lemma url_shape:
  assumes "fetch_request t env a = Inr req"
  shows "\<exists>ps. ps \<noteq> [] \<and> parameters_named ''key'' ps = [] \<and>
           url req = endpoint t @ ''?'' @ urlencoded_serialize ps @
             (if t = forecast_hours \<and> (env = None \<or> env = Some [])
              then []
              else if t \<in> {forecast_days, get_hourly_weather, current_conditions}
              then ''&key='' @ (case env of None \<Rightarrow> ''undefined'' | Some k \<Rightarrow> k)
              else ''&key='' @ form_urlencode (case env of None \<Rightarrow> ''undefined'' | Some k \<Rightarrow> k))"
proof -
  from fetch_request_Inr [OF assms] obtain ps where
    ps: "searchParams t (process_env env) a = Inr ps" and
    req: "url req = fetch_url t (process_env env) ps"
    by auto
  have ts: "ToString (process_env env) = (case env of None \<Rightarrow> ''undefined'' | Some k \<Rightarrow> k)"
    by (simp add: process_env_def split: option.splits)
  have tr: "truthy (process_env env) = (\<not> (env = None \<or> env = Some []))"
    by (simp add: process_env_def split: option.splits)
  show ?thesis
  proof (cases "t \<in> {forecast_days, get_hourly_weather, current_conditions} \<or>
           (t = forecast_hours \<and> \<not> truthy (process_env env))")
    case True
    from unkeyed_shape [OF True ps] have sh: "ps \<noteq> []" "parameters_named ''key'' ps = []"
      by auto
    from True req sh(1) have "url req = endpoint t @ ''?'' @ urlencoded_serialize ps @
             (if t = forecast_hours \<and> (env = None \<or> env = Some [])
              then []
              else if t \<in> {forecast_days, get_hourly_weather, current_conditions}
              then ''&key='' @ (case env of None \<Rightarrow> ''undefined'' | Some k \<Rightarrow> k)
              else ''&key='' @ form_urlencode (case env of None \<Rightarrow> ''undefined'' | Some k \<Rightarrow> k))"
      by (auto simp add: URL_toString_def ts tr simp del: endpoint.simps)
    with sh show ?thesis by blast
  next
    case False
    then have k1: "t \<notin> {forecast_days, get_hourly_weather, current_conditions}"
      and k2: "t = forecast_hours \<longrightarrow> truthy (process_env env)"
      by auto
    from keyed_shape [OF k1 k2 ps] have sh: "ps \<noteq> []" "butlast ps \<noteq> []"
      "parameters_named ''key'' (butlast ps) = []" "last ps = (''key'', ToString (process_env env))"
      by auto
    have u: "URL_toString (endpoint t) ps = endpoint t @ ''?'' @ urlencoded_serialize (butlast ps) @
        ''&key='' @ form_urlencode (ToString (process_env env))"
      by (rule URL_toString_keyed [OF sh(1,2,4)])
    have f: "fetch_url t (process_env env) ps = URL_toString (endpoint t) ps"
      using k1 sh(1) by (cases t) (simp_all add: URL_toString_def del: endpoint.simps)
    from k1 k2 have "url req = endpoint t @ ''?'' @ urlencoded_serialize (butlast ps) @
             (if t = forecast_hours \<and> (env = None \<or> env = Some [])
              then []
              else if t \<in> {forecast_days, get_hourly_weather, current_conditions}
              then ''&key='' @ (case env of None \<Rightarrow> ''undefined'' | Some k \<Rightarrow> k)
              else ''&key='' @ form_urlencode (case env of None \<Rightarrow> ''undefined'' | Some k \<Rightarrow> k))"
      unfolding req f u ts using tr by auto
    with sh(2,3) show ?thesis by blast
  qed
qed


section \<open>Reading the arguments\<close>










lemma truthy_defined: "truthy v \<Longrightarrow> v \<noteq> JsUndefined"
  by auto









section \<open>Reading the query string of a URL\<close>




lemma split_on_not_Nil: "split_on d s \<noteq> []"
  by (induction s) (auto split: list.splits)





















lemma plain_name: "\<forall>c\<in>set n. form_safe c \<Longrightarrow> form_urlencode n = n"
  by (rule form_urlencode_safe)












section \<open>The executor always resolves\<close>

lemma executeFunction_success:
  "fetch_request t env a = Inr req \<Longrightarrow> fetch req = Inr response \<Longrightarrow> ok response \<Longrightarrow>
   json response = Inr data \<Longrightarrow> executeFunction t fetch env a = Inr data"
  by (simp add: executeFunction_def try_block_def)

lemma executeFunction_rejected:
  "fetch_request t env a = Inr req \<Longrightarrow> fetch req = Inr response \<Longrightarrow> \<not> ok response \<Longrightarrow>
   json response = Inr errorData \<Longrightarrow>
   executeFunction t fetch env a =
     Inr (JObject [(''error'', JStr (error_prefix t @ JSON_stringify errorData))])"
  by (simp add: executeFunction_def try_block_def error_text_def)

lemma executeFunction_unparsed:
  "fetch_request t env a = Inr req \<Longrightarrow> fetch req = Inr response \<Longrightarrow>
   json response = Inl e \<Longrightarrow>
   executeFunction t fetch env a = Inr (JObject [(''error'', JStr (error_prefix t @ error_text e))])"
  by (simp add: executeFunction_def try_block_def)

lemma executeFunction_cases:
  "(\<exists>req response data. fetch_request t env a = Inr req \<and> fetch req = Inr response \<and>
       ok response \<and> json response = Inr data \<and> executeFunction t fetch env a = Inr data)
   \<or> (\<exists>e. try_block t fetch env a = Inl e \<and>
         executeFunction t fetch env a =
           Inr (JObject [(''error'', JStr (error_prefix t @ error_text e))]))"
  by (auto simp add: executeFunction_def try_block_def split: sum.splits)

text \<open>
  C1. Whatever the transport does (a response with success status, a response with another
  status, a rejected \<^verbatim>\<open>fetch\<close>, an exception while the URL is built, a body that does not
  parse), the executor resolves with a value and throws nothing: when a success response
  with a parsed body arrives the value is that body, and in every other case it is an object
  \<^verbatim>\<open>{ error: s }\<close> with a string \<open>s\<close>.
\<close>

theorem executeFunction_always_resolves:
  "(\<exists>v. executeFunction t fetch env a = Inr v) \<and>
   (\<forall>req response data.
      fetch_request t env a = Inr req \<longrightarrow> fetch req = Inr response \<longrightarrow> ok response \<longrightarrow>
      json response = Inr data \<longrightarrow> executeFunction t fetch env a = Inr data) \<and>
   ((\<forall>req response data.
      \<not> (fetch_request t env a = Inr req \<and> fetch req = Inr response \<and> ok response \<and>
         json response = Inr data)) \<longrightarrow>
    (\<exists>s. executeFunction t fetch env a = Inr (JObject [(''error'', JStr s)])))"
  using executeFunction_cases [of t env a fetch] executeFunction_success [of t env a _ fetch]
  by blast

theorem executeFunction_always_resolves_witness:
  "executeFunction nearest_roads
       (\<lambda>r. Inr \<lparr>status = 200, json = Inr (JObject [(''snappedPoints'', JArray [])])\<rparr>)
       (Some ''KEY'') [''points'' \<mapsto> JsString ''60.1,24.9''] =
     Inr (JObject [(''snappedPoints'', JArray [])]) \<and>
   (\<exists>s. executeFunction nearest_roads (\<lambda>r. Inl (ErrorInstance ''fetch failed''))
       (Some ''KEY'') [''points'' \<mapsto> JsString ''60.1,24.9''] = Inr (JObject [(''error'', JStr s)])) \<and>
   (\<exists>s. executeFunction get_time_zone (\<lambda>r. Inr \<lparr>status = 200, json = Inr JNull\<rparr>)
       (Some ''KEY'') [''location'' \<mapsto> JsString ''60.1,24.9''] = Inr (JObject [(''error'', JStr s)]))"
  using
    executeFunction_always_resolves [of nearest_roads
      "\<lambda>r. Inr \<lparr>status = 200, json = Inr (JObject [(''snappedPoints'', JArray [])])\<rparr>"
      "Some ''KEY''" "[''points'' \<mapsto> JsString ''60.1,24.9'']"]
    executeFunction_always_resolves [of nearest_roads "\<lambda>r. Inl (ErrorInstance ''fetch failed'')"
      "Some ''KEY''" "[''points'' \<mapsto> JsString ''60.1,24.9'']"]
    executeFunction_always_resolves [of get_time_zone
      "\<lambda>r. Inr \<lparr>status = 200, json = Inr JNull\<rparr>"
      "Some ''KEY''" "[''location'' \<mapsto> JsString ''60.1,24.9'']"]
  by (simp add: nearest_roads_example time_zone_without_timestamp ok_def)

section \<open>Headers\<close>



section \<open>Error results\<close>

text \<open>
  C3, as the code has it. For distance_matrix, an answer with status 400 and JSON body
  \<^verbatim>\<open>{"error_message":"invalid request"}\<close> gives the result \<^verbatim>\<open>{ error: s }\<close> where \<open>s\<close> is
  the tool's fixed text "An error occurred while fetching the distance matrix: " followed by
  the whole stringified body.
\<close>

theorem distance_matrix_400:
  "fetch_request distance_matrix env a = Inr req \<Longrightarrow>
   fetch req = Inr response \<Longrightarrow> status response = 400 \<Longrightarrow>
   json response = Inr (JObject [(''error_message'', JStr ''invalid request'')]) \<Longrightarrow>
   executeFunction distance_matrix fetch env a =
     Inr (JObject [(''error'',
       JStr (''An error occurred while fetching the distance matrix: '' @
             ''{\"error_message\":\"invalid request\"}''))])"
  by (simp add: executeFunction_rejected [of distance_matrix env a req fetch response]
        ok_def JSON_quote_def JSON_quote_char_def)

theorem distance_matrix_400_witness:
  "executeFunction distance_matrix
     (\<lambda>r. Inr \<lparr>status = 400,
                json = Inr (JObject [(''error_message'', JStr ''invalid request'')])\<rparr>)
     (Some ''KEY'') [''origins'' \<mapsto> JsString ''Oslo'', ''destinations'' \<mapsto> JsString ''Bergen''] =
   Inr (JObject [(''error'',
     JStr (''An error occurred while fetching the distance matrix: '' @
           ''{\"error_message\":\"invalid request\"}''))])"
  using distance_matrix_400 [OF distance_matrix_example,
      of "\<lambda>r. Inr \<lparr>status = 400,
                json = Inr (JObject [(''error_message'', JStr ''invalid request'')])\<rparr>"
         "\<lparr>status = 400, json = Inr (JObject [(''error_message'', JStr ''invalid request'')])\<rparr>"]
  by simp

text \<open>
  The claim C3 in its own words asks for the bare stringified body as the \<^verbatim>\<open>error\<close> field;
  at this input the field carries the tool's text in front of it.
\<close>

theorem distance_matrix_400_counterexample:
  "executeFunction distance_matrix
     (\<lambda>r. Inr \<lparr>status = 400,
                json = Inr (JObject [(''error_message'', JStr ''invalid request'')])\<rparr>)
     (Some ''KEY'') [''origins'' \<mapsto> JsString ''Oslo'', ''destinations'' \<mapsto> JsString ''Bergen'']
   \<noteq> Inr (JObject [(''error'', JStr ''{\"error_message\":\"invalid request\"}'')])"
  by (simp add: executeFunction_rejected [OF distance_matrix_example] ok_def
        JSON_quote_def JSON_quote_char_def)

text \<open>
  C6. When the answer has a non-success status and its body is not JSON, \<^verbatim>\<open>response.json()\<close>
  rejects inside the error branch; the handler catches that rejection and the result's
  \<^verbatim>\<open>error\<close> field is the tool's fixed text followed by the message of that rejection. The
  status is not part of the result: any other non-success answer whose body fails to parse
  with the same message gives the same result.
\<close>

theorem unparsed_error_body:
  "fetch_request t env a = Inr req \<Longrightarrow> fetch req = Inr response \<Longrightarrow> \<not> ok response \<Longrightarrow>
   json response = Inl (ErrorInstance m) \<Longrightarrow>
   executeFunction t fetch env a = Inr (JObject [(''error'', JStr (error_prefix t @ m))]) \<and>
   (\<forall>fetch' response'. fetch' req = Inr response' \<and> \<not> ok response' \<and>
        json response' = Inl (ErrorInstance m) \<longrightarrow>
      executeFunction t fetch' env a = executeFunction t fetch env a)"
  by (simp add: executeFunction_unparsed error_text_def)

theorem unparsed_error_body_witness:
  "executeFunction nearest_roads
     (\<lambda>r. Inr \<lparr>status = 502, json = Inl (ErrorInstance ''Unexpected token < in JSON at position 0'')\<rparr>)
     (Some ''KEY'') [''points'' \<mapsto> JsString ''60.1,24.9''] =
   Inr (JObject [(''error'', JStr (''An error occurred while finding nearest roads: '' @
      ''Unexpected token < in JSON at position 0''))]) \<and>
   executeFunction nearest_roads
     (\<lambda>r. Inr \<lparr>status = 404, json = Inl (ErrorInstance ''Unexpected token < in JSON at position 0'')\<rparr>)
     (Some ''KEY'') [''points'' \<mapsto> JsString ''60.1,24.9''] =
   executeFunction nearest_roads
     (\<lambda>r. Inr \<lparr>status = 502, json = Inl (ErrorInstance ''Unexpected token < in JSON at position 0'')\<rparr>)
     (Some ''KEY'') [''points'' \<mapsto> JsString ''60.1,24.9'']"
  using unparsed_error_body [OF nearest_roads_example,
      of "\<lambda>r. Inr \<lparr>status = 502, json = Inl (ErrorInstance ''Unexpected token < in JSON at position 0'')\<rparr>"
         "\<lparr>status = 502, json = Inl (ErrorInstance ''Unexpected token < in JSON at position 0'')\<rparr>"
         "''Unexpected token < in JSON at position 0''"]
  by (simp add: ok_def)

section \<open>Success results\<close>

text \<open>
  C10. The parsed body of a success response is returned as it is. So there is an upstream
  body with status 200 (one with a top-level \<^verbatim>\<open>error\<close> key holding a string) whose success
  result passes the specification's failure test: the test does not tell success from
  failure for every upstream body.
\<close>

theorem success_body_verbatim:
  "fetch_request t env a = Inr req \<Longrightarrow>
   (fetch req = Inr response \<longrightarrow> ok response \<longrightarrow> json response = Inr data \<longrightarrow>
      executeFunction t fetch env a = Inr data) \<and>
   (\<exists>body. spec_is_failure body \<and>
      executeFunction t (\<lambda>r. Inr \<lparr>status = 200, json = Inr body\<rparr>) env a = Inr body)"
proof (intro conjI impI)
  assume "fetch_request t env a = Inr req" "fetch req = Inr response" "ok response"
    "json response = Inr data"
  then show "executeFunction t fetch env a = Inr data"
    by (rule executeFunction_success)
next
  assume r: "fetch_request t env a = Inr req"
  let ?body = "JObject [(''error'', JStr ''quota exceeded'')]"
  have "spec_is_failure ?body"
    by (simp add: spec_is_failure_def)
  moreover have "executeFunction t (\<lambda>r. Inr \<lparr>status = 200, json = Inr ?body\<rparr>) env a = Inr ?body"
    by (rule executeFunction_success [OF r, where response = "\<lparr>status = 200, json = Inr ?body\<rparr>"])
       (simp_all add: ok_def)
  ultimately show "\<exists>body. spec_is_failure body \<and>
      executeFunction t (\<lambda>r. Inr \<lparr>status = 200, json = Inr body\<rparr>) env a = Inr body"
    by blast
qed

theorem success_body_verbatim_witness:
  "executeFunction nearest_roads
     (\<lambda>r. Inr \<lparr>status = 200, json = Inr (JObject [(''error'', JStr ''none'')])\<rparr>)
     (Some ''KEY'') [''points'' \<mapsto> JsString ''60.1,24.9''] =
     Inr (JObject [(''error'', JStr ''none'')]) \<and>
   spec_is_failure (JObject [(''error'', JStr ''none'')])"
  using success_body_verbatim [OF nearest_roads_example,
      of "\<lambda>r. Inr \<lparr>status = 200, json = Inr (JObject [(''error'', JStr ''none'')])\<rparr>"
         "\<lparr>status = 200, json = Inr (JObject [(''error'', JStr ''none'')])\<rparr>"
         "JObject [(''error'', JStr ''none'')]"]
  by (simp add: ok_def spec_is_failure_def)

section \<open>The time zone scenario\<close>

text \<open>
  C7. Calling get_time_zone with location "39.6034810,-119.6822510" and timestamp
  1331161200 makes a GET request to
  \<^verbatim>\<open>https://www.googleapis.com/maps/api/timezone/json?location=39.6034810%2C-119.6822510&timestamp=1331161200&key=\<close>
  followed by the configured key (in its form-encoded spelling, which for a key of letters,
  digits, \<^verbatim>\<open>-\<close>, \<^verbatim>\<open>_\<close>, \<^verbatim>\<open>.\<close> and \<^verbatim>\<open>*\<close> is the key itself); the comma of the location
  is sent as \<^verbatim>\<open>%2C\<close>.
\<close>

theorem get_time_zone_scenario:
  "fetch_request get_time_zone (Some k)
      [''location'' \<mapsto> JsString ''39.6034810,-119.6822510'',
       ''timestamp'' \<mapsto> JsNumber 1331161200] =
     Inr \<lparr>url = ''https://www.googleapis.com/maps/api/timezone/json?location=39.6034810%2C-119.6822510&timestamp=1331161200&key='' @ form_urlencode k,
          http_method = ''GET'', headers = [(''Accept'', ''application/json'')]\<rparr> \<and>
   ((\<forall>c\<in>set k. form_safe c) \<longrightarrow> form_urlencode k = k)"
  by (simp add: eval_defs form_urlencode_safe [unfolded form_urlencode_def form_safe_def])

theorem get_time_zone_scenario_witness:
  "fetch_request get_time_zone (Some ''AIza-Key_01'')
      [''location'' \<mapsto> JsString ''39.6034810,-119.6822510'',
       ''timestamp'' \<mapsto> JsNumber 1331161200] =
     Inr \<lparr>url = ''https://www.googleapis.com/maps/api/timezone/json?location=39.6034810%2C-119.6822510&timestamp=1331161200&key=AIza-Key_01'',
          http_method = ''GET'', headers = [(''Accept'', ''application/json'')]\<rparr>"
  using get_time_zone_scenario [of "''AIza-Key_01''"]
  by (simp add: form_safe_def)

section \<open>The API key\<close>

text \<open>
  C2, as the code has it. In every tool but forecast_hours the URL given to \<^verbatim>\<open>fetch\<close> ends
  with \<^verbatim>\<open>&key=\<close> and the text of the configured value, written \<^verbatim>\<open>undefined\<close> when the
  variable is unset; the value is form-encoded, except in forecast_days, get_hourly_weather
  and current_conditions, where it is concatenated as it is; no parameter before it is named
  \<^verbatim>\<open>key\<close>. forecast_hours appends the key in the same encoded way only when the configured
  value is a non-empty string, and leaves the parameter out otherwise. Building the request
  never depends on the key: a request that is built with some configuration is also built
  and sent when the variable is unset.
\<close>

theorem api_key_parameter:
  "fetch_request t env a = Inr req \<Longrightarrow>
   (\<exists>ps. ps \<noteq> [] \<and> parameters_named ''key'' ps = [] \<and>
      url req = endpoint t @ ''?'' @ urlencoded_serialize ps @
        (if t = forecast_hours \<and> (env = None \<or> env = Some [])
         then []
         else if t \<in> {forecast_days, get_hourly_weather, current_conditions}
         then ''&key='' @ (case env of None \<Rightarrow> ''undefined'' | Some k \<Rightarrow> k)
         else ''&key='' @ form_urlencode (case env of None \<Rightarrow> ''undefined'' | Some k \<Rightarrow> k))) \<and>
   (\<exists>req'. fetch_request t None a = Inr req')"
proof
  assume r: "fetch_request t env a = Inr req"
  then show "\<exists>ps. ps \<noteq> [] \<and> parameters_named ''key'' ps = [] \<and>
      url req = endpoint t @ ''?'' @ urlencoded_serialize ps @
        (if t = forecast_hours \<and> (env = None \<or> env = Some [])
         then []
         else if t \<in> {forecast_days, get_hourly_weather, current_conditions}
         then ''&key='' @ (case env of None \<Rightarrow> ''undefined'' | Some k \<Rightarrow> k)
         else ''&key='' @ form_urlencode (case env of None \<Rightarrow> ''undefined'' | Some k \<Rightarrow> k))"
    by (rule url_shape)
  from fetch_request_Inr [OF r] have "\<not> isl (searchParams t (process_env env) a)"
    by auto
  then have "\<not> isl (searchParams t (process_env None) a)"
    using searchParams_key_independent [of t "process_env env" a "process_env None"] by simp
  then show "\<exists>req'. fetch_request t None a = Inr req'"
    by (cases "searchParams t (process_env None) a")
       (auto simp add: fetch_request_def Let_def simp del: searchParams.simps)
qed

theorem api_key_parameter_witness:
  "(\<exists>ps. ps \<noteq> [] \<and> parameters_named ''key'' ps = [] \<and>
      ''https://roads.googleapis.com/v1/nearestRoads?points=60.1%2C24.9&key=KEY'' =
        endpoint nearest_roads @ ''?'' @ urlencoded_serialize ps @ ''&key='' @ form_urlencode ''KEY'') \<and>
   (\<exists>ps. ps \<noteq> [] \<and> parameters_named ''key'' ps = [] \<and>
      ''https://weather.googleapis.com/v1/forecast/hours:lookup?location.latitude=1&location.longitude=2&unitsSystem=METRIC&pageSize=24&days=240&languageCode=en'' =
        endpoint forecast_hours @ ''?'' @ urlencoded_serialize ps)"
  using api_key_parameter [OF nearest_roads_example] api_key_parameter [OF forecast_hours_example]
  by simp

text \<open>
  The claim C2 in its own words has the key as the final parameter of every tool also when
  the variable is unset; forecast_hours then sends a URL whose last parameter is
  \<^verbatim>\<open>languageCode\<close> and that has no \<^verbatim>\<open>key\<close>.
\<close>

theorem api_key_parameter_counterexample:
  "fetch_request forecast_hours None [''latitude'' \<mapsto> JsNumber 1, ''longitude'' \<mapsto> JsNumber 2] =
     Inr \<lparr>url = ''https://weather.googleapis.com/v1/forecast/hours:lookup?location.latitude=1&location.longitude=2&unitsSystem=METRIC&pageSize=24&days=240&languageCode=en'',
          http_method = ''GET'', headers = [(''Content-Type'', ''application/json'')]\<rparr> \<and>
   searchParams forecast_hours (process_env None)
       [''latitude'' \<mapsto> JsNumber 1, ''longitude'' \<mapsto> JsNumber 2] =
     Inr [(''location.latitude'', ''1''), (''location.longitude'', ''2''),
          (''unitsSystem'', ''METRIC''), (''pageSize'', ''24''), (''days'', ''240''),
          (''languageCode'', ''en'')]"
  by (simp add: eval_defs)



section \<open>Defaults\<close>



section \<open>Parameters included only if present\<close>




end
